theory Spec2Isabelle
  imports Complex_Main
begin

section \<open>The thermostat environments\<close>

text \<open>
  The repository holds three notebooks that each define a class
  \<^verbatim>\<open>ThermostatEnvironment\<close> (called V1, V2 and V3 below, in the order
  \<^verbatim>\<open>thermostat-environment\<close>, \<^verbatim>\<open>thermostatic-control-02-max-startups\<close>,
  \<^verbatim>\<open>thermostatic-control-03-max-startups-explicit-state\<close>) and one notebook with the
  pure function \<^verbatim>\<open>respond\<close>.

  Conventions of the embedding:
  \<^item> Python's unbounded \<^verbatim>\<open>int\<close> is \<open>int\<close>; Python's \<^verbatim>\<open>float\<close> is read as an exact
    \<open>real\<close> (rounding, overflow and NaN are not modelled). Nothing below rests on an
    exact equality between iterated float results: the closed form
    \<open>\<bar>T n - a\<bar> = \<bar>T0 - a\<bar> * exp (- n / tau)\<close> of a held action holds in the reals and
    not in the doubles the code computes with, and is not stated.
  \<^item> \<^verbatim>\<open>self\<close> is a record; every method takes the record and returns the record
    after the call next to what the call returns or raises, so that the state left
    behind by a raising call is visible.
  \<^item> \<^verbatim>\<open>np.random.random(size=(1,))\<close> is an extra argument \<open>sample\<close> of \<open>reset\<close>:
    the number drawn.
  \<^item> \<^verbatim>\<open>current_temp\<close> is a bare Python float after \<^verbatim>\<open>__init__\<close> and a numpy array
    of shape \<^verbatim>\<open>(1,)\<close> after \<^verbatim>\<open>reset\<close> in V2 and V3. Arithmetic and comparison act
    alike on both, indexing \<^verbatim>\<open>[0]\<close> does not, so the form is kept.
\<close>

datatype py_error = AssertionError | ZeroDivisionError | TypeError

datatype temp = PyFloat real | NdArray real

fun temp_val :: "temp \<Rightarrow> real" where
  "temp_val (PyFloat x) = x"
| "temp_val (NdArray x) = x"

fun temp_map :: "(real \<Rightarrow> real) \<Rightarrow> temp \<Rightarrow> temp" where
  "temp_map f (PyFloat x) = PyFloat (f x)"
| "temp_map f (NdArray x) = NdArray (f x)"

subsection \<open>The response function of \<^verbatim>\<open>thermostatic-response-function\<close>\<close>

text \<open>
  \<^verbatim>\<open>return action + (current_temp - action) * math.exp(-1.0/tau)\<close>;
  the division raises for \<^verbatim>\<open>tau == 0\<close>.
\<close>

definition respond :: "int \<Rightarrow> real \<Rightarrow> real \<Rightarrow> py_error + real" where
  "respond action current_temp tau =
     (if tau = 0 then Inl ZeroDivisionError
      else Inr (real_of_int action + (current_temp - real_of_int action) * exp (- 1 / tau)))"

subsection \<open>V1: \<^verbatim>\<open>thermostat-environment\<close>\<close>

record env_v1 =
  tau :: real
  current_temp :: temp
  timestep :: int

definition init_v1 :: env_v1 where
  "init_v1 = \<lparr>tau = 3, current_temp = PyFloat 0, timestep = 0\<rparr>"

definition max_episode_timesteps_v1 :: "'a env_v1_scheme \<Rightarrow> int" where
  "max_episode_timesteps_v1 s = 5"

definition reset_v1 :: "real \<Rightarrow> env_v1 \<Rightarrow> temp \<times> env_v1" where
  "reset_v1 sample s =
     (let state = NdArray sample;
          s1 = s\<lparr>current_temp := PyFloat 0\<rparr>;
          s2 = s1\<lparr>timestep := 0\<rparr>
      in (state, s2))"

text \<open>\<^verbatim>\<open>response\<close> and \<^verbatim>\<open>reward_compute\<close> have the same text in V1 and V2,
  and \<^verbatim>\<open>response\<close> in V3 too.\<close>

definition response :: "'a env_v1_scheme \<Rightarrow> int \<Rightarrow> py_error + temp" where
  "response s action =
     (if tau s = 0 then Inl ZeroDivisionError
      else Inr (temp_map (\<lambda>T. real_of_int action + (T - real_of_int action) * exp (- 1 / tau s))
                  (current_temp s)))"

text \<open>The value of the reward; V2 returns it inside a one-element array when
  \<^verbatim>\<open>current_temp\<close> is one.\<close>

definition reward_compute :: "'a env_v1_scheme \<Rightarrow> real" where
  "reward_compute s =
     (let delta = \<bar>temp_val (current_temp s) - 0.5\<bar>
      in if delta < 0.1 then 0 else - delta + 0.1)"

definition execute_v1 :: "env_v1 \<Rightarrow> int \<Rightarrow> (py_error + temp \<times> bool \<times> real) \<times> env_v1" where
  "execute_v1 s actions =
     (if \<not> (actions = 0 \<or> actions = 1) then (Inl AssertionError, s)
      else
        let s1 = s\<lparr>timestep := timestep s + 1\<rparr> in
        case response s1 actions of
          Inl e \<Rightarrow> (Inl e, s1)
        | Inr t \<Rightarrow>
            let s2 = s1\<lparr>current_temp := t\<rparr>;
                reward = reward_compute s2;
                terminal = (if timestep s2 > max_episode_timesteps_v1 s2 then True else False)
            in (Inr (current_temp s2, terminal, reward), s2))"

subsection \<open>V2: \<^verbatim>\<open>thermostatic-control-02-max-startups\<close>\<close>

record env_v2 = env_v1 +
  max_timestep :: int
  exceed_toggle_on_reward :: real
  last_heater_state :: int
  max_toggle_ons :: int
  window_toggle_ons :: int
  off_to_on :: "int list"

definition init_v2 :: env_v2 where
  "init_v2 = \<lparr>tau = 3, current_temp = PyFloat 0, timestep = 0,
              max_timestep = 200, exceed_toggle_on_reward = - 50,
              last_heater_state = 0, max_toggle_ons = 3, window_toggle_ons = 20,
              off_to_on = []\<rparr>"

definition max_episode_timesteps :: "'a env_v2_scheme \<Rightarrow> int" where
  "max_episode_timesteps s = max_timestep s"

definition reset_v2 :: "real \<Rightarrow> env_v2 \<Rightarrow> temp \<times> env_v2" where
  "reset_v2 sample s =
     (let s1 = s\<lparr>timestep := 0\<rparr>;
          s2 = s1\<lparr>last_heater_state := 0\<rparr>;
          s3 = s2\<lparr>off_to_on := []\<rparr>;
          s4 = s3\<lparr>current_temp := NdArray sample\<rparr>
      in (current_temp s4, s4))"

text \<open>The comprehension
  \<^verbatim>\<open>[e for e in self.off_to_on if self.timestep - e <= self.window_toggle_ons]\<close>
  of V2 and V3.\<close>

definition lstWindowEvents :: "'a env_v2_scheme \<Rightarrow> int list" where
  "lstWindowEvents s = filter (\<lambda>e. timestep s - e \<le> window_toggle_ons s) (off_to_on s)"

text \<open>Two statements of \<^verbatim>\<open>execute\<close> that V2 and V3 share: the append to
  \<^verbatim>\<open>off_to_on\<close> on a step from off to on, then the update of
  \<^verbatim>\<open>last_heater_state\<close>.\<close>

definition record_startup :: "'a env_v2_scheme \<Rightarrow> int \<Rightarrow> 'a env_v2_scheme" where
  "record_startup s actions =
     (let s3 = (if actions = 1 \<and> last_heater_state s = 0
                then s\<lparr>off_to_on := off_to_on s @ [timestep s]\<rparr> else s)
      in s3\<lparr>last_heater_state := actions\<rparr>)"

definition execute_v2 :: "env_v2 \<Rightarrow> int \<Rightarrow> (py_error + temp \<times> bool \<times> real) \<times> env_v2" where
  "execute_v2 s actions =
     (if \<not> (actions = 0 \<or> actions = 1) then (Inl AssertionError, s)
      else
        let s1 = s\<lparr>timestep := timestep s + 1\<rparr> in
        case response s1 actions of
          Inl e \<Rightarrow> (Inl e, s1)
        | Inr t \<Rightarrow>
            let s2 = s1\<lparr>current_temp := t\<rparr>;
                s4 = record_startup s2 actions
            in if int (length (lstWindowEvents s4)) > max_toggle_ons s4
               then (Inr (current_temp s4, True, exceed_toggle_on_reward s4), s4)
               else if timestep s4 > max_episode_timesteps s4
               then (Inr (current_temp s4, True, reward_compute s4), s4)
               else (Inr (current_temp s4, False, reward_compute s4), s4))"

subsection \<open>V3: \<^verbatim>\<open>thermostatic-control-03-max-startups-explicit-state\<close>\<close>

record env_v3 = env_v2 +
  toggle_ons_left :: int

definition init_v3 :: env_v3 where
  "init_v3 = \<lparr>tau = 3, current_temp = PyFloat 0, timestep = 0,
              max_timestep = 100, exceed_toggle_on_reward = - 10,
              last_heater_state = 0, max_toggle_ons = 3, window_toggle_ons = 10,
              off_to_on = [], toggle_ons_left = 3\<rparr>"

text \<open>\<^verbatim>\<open>np.array([self.current_temp, self.toggle_ons_left], dtype=np.float)\<close>:
  a vector of two floats.\<close>

definition observation_v3 :: "env_v3 \<Rightarrow> real \<times> real" where
  "observation_v3 s = (temp_val (current_temp s), real_of_int (toggle_ons_left s))"

definition reset_v3 :: "real \<Rightarrow> env_v3 \<Rightarrow> (real \<times> real) \<times> env_v3" where
  "reset_v3 sample s =
     (let s1 = s\<lparr>timestep := 0\<rparr>;
          s2 = s1\<lparr>last_heater_state := 0\<rparr>;
          s3 = s2\<lparr>off_to_on := []\<rparr>;
          s4 = s3\<lparr>toggle_ons_left := max_toggle_ons s3\<rparr>;
          s5 = s4\<lparr>current_temp := NdArray sample\<rparr>
      in (observation_v3 s5, s5))"

text \<open>V3 returns \<^verbatim>\<open>-delta[0] + 0.1\<close> outside the band: \<^verbatim>\<open>delta\<close> has the form of
  \<^verbatim>\<open>current_temp\<close>, and indexing a float raises.\<close>

definition reward_compute_v3 :: "env_v3 \<Rightarrow> py_error + real" where
  "reward_compute_v3 s =
     (let delta = temp_map (\<lambda>T. \<bar>T - 0.5\<bar>) (current_temp s)
      in if temp_val delta < 0.1 then Inr 1
         else (case delta of
                 PyFloat d \<Rightarrow> Inl TypeError
               | NdArray d \<Rightarrow> Inr (- d + 0.1)))"

definition execute_v3 ::
  "env_v3 \<Rightarrow> int \<Rightarrow> (py_error + (real \<times> real) \<times> bool \<times> real) \<times> env_v3" where
  "execute_v3 s actions =
     (if \<not> (actions = 0 \<or> actions = 1) then (Inl AssertionError, s)
      else
        let s1 = s\<lparr>timestep := timestep s + 1\<rparr> in
        case response s1 actions of
          Inl e \<Rightarrow> (Inl e, s1)
        | Inr t \<Rightarrow>
            let s2 = s1\<lparr>current_temp := t\<rparr>;
                s4 = record_startup s2 actions;
                s5 = s4\<lparr>toggle_ons_left := max_toggle_ons s4 - int (length (lstWindowEvents s4))\<rparr>
            in if toggle_ons_left s5 < 0
               then (Inr (observation_v3 s5, False, exceed_toggle_on_reward s5), s5)
               else if timestep s5 > max_episode_timesteps s5
               then (case reward_compute_v3 s5 of
                       Inl e \<Rightarrow> (Inl e, s5)
                     | Inr reward \<Rightarrow> (Inr (observation_v3 s5, True, reward), s5))
               else (case reward_compute_v3 s5 of
                       Inl e \<Rightarrow> (Inl e, s5)
                     | Inr reward \<Rightarrow> (Inr (observation_v3 s5, False, reward), s5)))"

subsection \<open>Driving an environment\<close>

text \<open>
  The test cells of the notebooks call \<^verbatim>\<open>execute\<close> once per action of a sequence,
  one call after the other on the same object. \<open>run\<close> returns what each call
  returned and the environment after the last call; an exception ends the sequence at
  the call that raised it.
\<close>

fun run_v1 :: "env_v1 \<Rightarrow> int list \<Rightarrow> (py_error + temp \<times> bool \<times> real) list \<times> env_v1" where
  "run_v1 s [] = ([], s)"
| "run_v1 s (a # as) =
     (case execute_v1 s a of
        (Inl e, s') \<Rightarrow> ([Inl e], s')
      | (Inr out, s') \<Rightarrow> (case run_v1 s' as of (outs, s'') \<Rightarrow> (Inr out # outs, s'')))"

fun run_v2 :: "env_v2 \<Rightarrow> int list \<Rightarrow> (py_error + temp \<times> bool \<times> real) list \<times> env_v2" where
  "run_v2 s [] = ([], s)"
| "run_v2 s (a # as) =
     (case execute_v2 s a of
        (Inl e, s') \<Rightarrow> ([Inl e], s')
      | (Inr out, s') \<Rightarrow> (case run_v2 s' as of (outs, s'') \<Rightarrow> (Inr out # outs, s'')))"

fun run_v3 ::
  "env_v3 \<Rightarrow> int list \<Rightarrow> (py_error + (real \<times> real) \<times> bool \<times> real) list \<times> env_v3" where
  "run_v3 s [] = ([], s)"
| "run_v3 s (a # as) =
     (case execute_v3 s a of
        (Inl e, s') \<Rightarrow> ([Inl e], s')
      | (Inr out, s') \<Rightarrow> (case run_v3 s' as of (outs, s'') \<Rightarrow> (Inr out # outs, s'')))"

text \<open>The terminal flag of what a call returned, if it returned.\<close>

fun terminal_of :: "py_error + 'o \<times> bool \<times> real \<Rightarrow> bool option" where
  "terminal_of (Inl e) = None"
| "terminal_of (Inr (obs, terminal, reward)) = Some terminal"

fun reward_of :: "py_error + 'o \<times> bool \<times> real \<Rightarrow> real option" where
  "reward_of (Inl e) = None"
| "reward_of (Inr (obs, terminal, reward)) = Some reward"

section \<open>Facts about single calls and runs\<close>

subsection \<open>What a call with a valid action returns\<close>

text \<open>
  With a time constant other than zero and an action in \<open>{0, 1}\<close> the calls of V1 and V2
  return; the call of V3 returns when the budget is negative or the temperature is held
  as an array, and leaves the same environment behind when it raises.
\<close>

lemma execute_v1_returns:
  assumes "tau s \<noteq> 0" "a = 0 \<or> a = 1"
  shows "execute_v1 s a =
    (let s2 = s\<lparr>timestep := timestep s + 1,
                 current_temp := temp_map (\<lambda>T. real_of_int a + (T - real_of_int a) * exp (- 1 / tau s))
                                   (current_temp s)\<rparr>
     in (Inr (current_temp s2, 5 < timestep s2, reward_compute s2), s2))"
  using assms by (auto simp add: execute_v1_def response_def max_episode_timesteps_v1_def Let_def)

lemma execute_v2_returns:
  assumes "tau s \<noteq> 0" "a = 0 \<or> a = 1"
  shows "execute_v2 s a =
    (let s4 = record_startup
                (s\<lparr>timestep := timestep s + 1,
                   current_temp := temp_map (\<lambda>T. real_of_int a + (T - real_of_int a) * exp (- 1 / tau s))
                                     (current_temp s)\<rparr>) a;
         exceeded = (max_toggle_ons s4 < int (length (lstWindowEvents s4)))
     in (Inr (current_temp s4,
              exceeded \<or> max_timestep s4 < timestep s4,
              if exceeded then exceed_toggle_on_reward s4 else reward_compute s4), s4))"
  using assms
  by (auto simp add: execute_v2_def response_def max_episode_timesteps_def Let_def)

lemma execute_v3_unfold:
  assumes "tau s \<noteq> 0" "a = 0 \<or> a = 1"
  shows "execute_v3 s a =
    (let s4 = record_startup
                (s\<lparr>timestep := timestep s + 1,
                   current_temp := temp_map (\<lambda>T. real_of_int a + (T - real_of_int a) * exp (- 1 / tau s))
                                     (current_temp s)\<rparr>) a;
         s5 = s4\<lparr>toggle_ons_left := max_toggle_ons s4 - int (length (lstWindowEvents s4))\<rparr>
     in if toggle_ons_left s5 < 0
        then (Inr (observation_v3 s5, False, exceed_toggle_on_reward s5), s5)
        else (case reward_compute_v3 s5 of
                Inl e \<Rightarrow> (Inl e, s5)
              | Inr reward \<Rightarrow> (Inr (observation_v3 s5, max_timestep s5 < timestep s5, reward), s5)))"
  using assms
  by (auto simp add: execute_v3_def response_def Let_def max_episode_timesteps_def
      split: sum.splits)

lemma execute_v3_snd:
  assumes "tau s \<noteq> 0" "a = 0 \<or> a = 1"
  shows "snd (execute_v3 s a) =
    (let s4 = record_startup
                (s\<lparr>timestep := timestep s + 1,
                   current_temp := temp_map (\<lambda>T. real_of_int a + (T - real_of_int a) * exp (- 1 / tau s))
                                     (current_temp s)\<rparr>) a
     in s4\<lparr>toggle_ons_left := max_toggle_ons s4 - int (length (lstWindowEvents s4))\<rparr>)"
  unfolding execute_v3_unfold[OF assms]
  by (simp add: Let_def split: sum.splits)

lemma execute_v3_negative_budget:
  assumes "tau s \<noteq> 0" "a = 0 \<or> a = 1" "toggle_ons_left (snd (execute_v3 s a)) < 0"
  shows "fst (execute_v3 s a) =
    Inr (observation_v3 (snd (execute_v3 s a)), False, exceed_toggle_on_reward (snd (execute_v3 s a)))"
proof -
  have neg: "toggle_ons_left (let s4 = record_startup
                (s\<lparr>timestep := timestep s + 1,
                   current_temp := temp_map (\<lambda>T. real_of_int a + (T - real_of_int a) * exp (- 1 / tau s))
                                     (current_temp s)\<rparr>) a
     in s4\<lparr>toggle_ons_left := max_toggle_ons s4 - int (length (lstWindowEvents s4))\<rparr>) < 0"
    using assms(3) unfolding execute_v3_snd[OF assms(1,2)] .
  show ?thesis
    unfolding execute_v3_snd[OF assms(1,2)]
    unfolding execute_v3_unfold[OF assms(1,2)]
    using neg by (simp add: Let_def)
qed

lemma execute_v3_array:
  assumes "tau s \<noteq> 0" "a = 0 \<or> a = 1" "current_temp s = NdArray (temp_val (current_temp s))"
  shows "execute_v3 s a =
    (let T' = real_of_int a + (temp_val (current_temp s) - real_of_int a) * exp (- 1 / tau s);
         s4 = record_startup (s\<lparr>timestep := timestep s + 1, current_temp := NdArray T'\<rparr>) a;
         s5 = s4\<lparr>toggle_ons_left := max_toggle_ons s4 - int (length (lstWindowEvents s4))\<rparr>
     in (Inr (observation_v3 s5,
              \<not> toggle_ons_left s5 < 0 \<and> timestep s5 > max_timestep s5,
              if toggle_ons_left s5 < 0 then exceed_toggle_on_reward s5
              else if \<bar>T' - 0.5\<bar> < 0.1 then 1 else - \<bar>T' - 0.5\<bar> + 0.1), s5))"
proof -
  obtain T where T: "current_temp s = NdArray T"
    using assms(3) by blast
  show ?thesis
    using assms(1,2) T
    by (auto simp add: execute_v3_def response_def reward_compute_v3_def Let_def
        record_startup_def max_episode_timesteps_def)
qed

lemma execute_v2_terminal:
  assumes "tau s \<noteq> 0" "a = 0 \<or> a = 1"
  shows "terminal_of (fst (execute_v2 s a)) =
    Some (max_toggle_ons (snd (execute_v2 s a)) < int (length (lstWindowEvents (snd (execute_v2 s a)))) \<or>
          max_timestep (snd (execute_v2 s a)) < timestep (snd (execute_v2 s a)))"
  by (simp add: execute_v2_returns[OF assms] Let_def)

lemma execute_v3_budget:
  assumes "tau s \<noteq> 0" "a = 0 \<or> a = 1"
  shows "toggle_ons_left (snd (execute_v3 s a)) =
    max_toggle_ons (snd (execute_v3 s a)) - int (length (lstWindowEvents (snd (execute_v3 s a))))"
  by (simp add: execute_v3_snd[OF assms] Let_def lstWindowEvents_def record_startup_def)

lemma execute_v3_terminal:
  assumes "tau s \<noteq> 0" "a = 0 \<or> a = 1" "current_temp s = NdArray T"
  shows "terminal_of (fst (execute_v3 s a)) =
    Some (\<not> toggle_ons_left (snd (execute_v3 s a)) < 0 \<and>
          max_timestep (snd (execute_v3 s a)) < timestep (snd (execute_v3 s a)))"
proof -
  have "current_temp s = NdArray (temp_val (current_temp s))"
    using assms(3) by simp
  from execute_v3_array[OF assms(1,2) this] show ?thesis
    by (simp add: Let_def)
qed

lemma execute_tau:
  "tau (snd (execute_v1 s1 a)) = tau s1"
  "tau (snd (execute_v2 s2 a)) = tau s2"
  "tau (snd (execute_v3 s3 a)) = tau s3"
  by (auto simp add: execute_v1_def execute_v2_def execute_v3_def response_def Let_def
      record_startup_def split: sum.splits)

lemma terminal_v1_returned:
  "terminal_of (fst (execute_v1 s a)) = Some b \<Longrightarrow> tau s \<noteq> 0 \<and> (a = 0 \<or> a = 1)"
  by (auto simp add: execute_v1_def response_def Let_def split: if_splits)

lemma terminal_v2_returned:
  "terminal_of (fst (execute_v2 s a)) = Some b \<Longrightarrow> tau s \<noteq> 0 \<and> (a = 0 \<or> a = 1)"
  by (auto simp add: execute_v2_def response_def Let_def split: if_splits)

subsection \<open>Runs\<close>

text \<open>
  A run continues after a prefix that did not raise; calls of V3 with action 0 on an
  environment without startups change the timestep and the temperature only; past the
  timestep limit every call of V1 and V2 is terminal.
\<close>

lemma run_v3_append:
  "run_v3 s as = (outs, s') \<Longrightarrow> list_all (\<lambda>r. \<not> isl r) outs \<Longrightarrow>
   run_v3 s (as @ bs) = (outs @ fst (run_v3 s' bs), snd (run_v3 s' bs))"
proof (induction as arbitrary: s outs s')
  case Nil
  then show ?case by simp
next
  case (Cons a as)
  obtain r s1 where e: "execute_v3 s a = (r, s1)" by (cases "execute_v3 s a")
  show ?case
  proof (cases r)
    case (Inl err)
    with Cons.prems e show ?thesis by auto
  next
    case (Inr out)
    obtain outs1 s2 where r1: "run_v3 s1 as = (outs1, s2)" by (cases "run_v3 s1 as")
    with Cons.prems e Inr have o: "outs = Inr out # outs1" "s' = s2" by auto
    with Cons.prems(2) have "list_all (\<lambda>r. \<not> isl r) outs1" by simp
    from Cons.IH[OF r1 this] show ?thesis using e Inr r1 o by simp
  qed
qed

lemma idle_v3:
  "tau s \<noteq> 0 \<Longrightarrow> current_temp s = NdArray T \<Longrightarrow> off_to_on s = [] \<Longrightarrow>
   last_heater_state s = 0 \<Longrightarrow> 0 \<le> max_toggle_ons s \<Longrightarrow>
   \<exists>outs s' T'. run_v3 s (replicate n 0) = (outs, s') \<and> length outs = n \<and>
      list_all (\<lambda>r. \<not> isl r) outs \<and>
      timestep s' = timestep s + int n \<and> current_temp s' = NdArray T' \<and>
      off_to_on s' = [] \<and> last_heater_state s' = 0 \<and> tau s' = tau s \<and>
      max_timestep s' = max_timestep s \<and> max_toggle_ons s' = max_toggle_ons s \<and>
      window_toggle_ons s' = window_toggle_ons s \<and>
      exceed_toggle_on_reward s' = exceed_toggle_on_reward s"
proof (induction n arbitrary: s T)
  case 0
  then show ?case by simp
next
  case (Suc n)
  have arr: "current_temp s = NdArray (temp_val (current_temp s))"
    using Suc.prems by simp
  note ex = execute_v3_array[OF Suc.prems(1) _ arr, of 0, simplified]
  obtain out s1 where e: "execute_v3 s 0 = (Inr out, s1)"
    by (simp add: ex Let_def)
  then have s1_eq: "s1 = snd (execute_v3 s 0)"
    by simp
  have s1: "tau s1 \<noteq> 0" "\<exists>T1. current_temp s1 = NdArray T1" "off_to_on s1 = []"
    "last_heater_state s1 = 0" "0 \<le> max_toggle_ons s1"
    "timestep s1 = timestep s + 1" "tau s1 = tau s"
    "max_timestep s1 = max_timestep s" "max_toggle_ons s1 = max_toggle_ons s"
    "window_toggle_ons s1 = window_toggle_ons s"
    "exceed_toggle_on_reward s1 = exceed_toggle_on_reward s"
    using Suc.prems unfolding s1_eq by (simp_all add: ex Let_def record_startup_def)
  then obtain T1 where T1: "current_temp s1 = NdArray T1"
    by blast
  from Suc.IH[OF s1(1) T1 s1(3,4,5)] obtain outs s' T' where
    r: "run_v3 s1 (replicate n 0) = (outs, s')" "length outs = n"
      "list_all (\<lambda>r. \<not> isl r) outs"
      "timestep s' = timestep s1 + int n" "current_temp s' = NdArray T'"
      "off_to_on s' = []" "last_heater_state s' = 0" "tau s' = tau s1"
      "max_timestep s' = max_timestep s1" "max_toggle_ons s' = max_toggle_ons s1"
      "window_toggle_ons s' = window_toggle_ons s1"
      "exceed_toggle_on_reward s' = exceed_toggle_on_reward s1"
    by blast
  have run: "run_v3 s (replicate (Suc n) 0) = (Inr out # outs, s')"
    using e r(1) by simp
  show ?case
    apply (rule exI[of _ "Inr out # outs"], rule exI[of _ s'], rule exI[of _ T'])
    using run r(2-) s1(6-) by simp
qed

lemma run_v1_past_limit:
  "tau s \<noteq> 0 \<Longrightarrow> 5 \<le> timestep s \<Longrightarrow> set bs \<subseteq> {0, 1} \<Longrightarrow>
   map terminal_of (fst (run_v1 s bs)) = replicate (length bs) (Some True)"
proof (induction bs arbitrary: s)
  case Nil
  then show ?case by simp
next
  case (Cons b bs)
  from Cons.prems have b: "b = 0 \<or> b = 1" by auto
  note ex = execute_v1_returns[OF Cons.prems(1) b]
  obtain out s1 where e: "execute_v1 s b = (Inr out, s1)"
    by (simp add: ex Let_def)
  then have s1_eq: "s1 = snd (execute_v1 s b)" and out_eq: "Inr out = fst (execute_v1 s b)"
    by simp_all
  have s1: "tau s1 \<noteq> 0" "5 \<le> timestep s1"
    using Cons.prems unfolding s1_eq by (simp_all add: ex Let_def)
  have t: "terminal_of (Inr out) = Some True"
    using Cons.prems unfolding out_eq by (simp add: ex Let_def)
  from Cons.prems have "set bs \<subseteq> {0, 1}" by simp
  from Cons.IH[OF s1 this] show ?case
    using e t by (auto split: prod.splits)
qed

lemma run_v2_past_limit:
  "tau s \<noteq> 0 \<Longrightarrow> max_timestep s \<le> timestep s \<Longrightarrow> set bs \<subseteq> {0, 1} \<Longrightarrow>
   map terminal_of (fst (run_v2 s bs)) = replicate (length bs) (Some True)"
proof (induction bs arbitrary: s)
  case Nil
  then show ?case by simp
next
  case (Cons b bs)
  from Cons.prems have b: "b = 0 \<or> b = 1" by auto
  note ex = execute_v2_returns[OF Cons.prems(1) b]
  obtain out s1 where e: "execute_v2 s b = (Inr out, s1)"
    by (simp add: ex Let_def)
  then have s1_eq: "s1 = snd (execute_v2 s b)" and out_eq: "Inr out = fst (execute_v2 s b)"
    by simp_all
  have s1: "tau s1 \<noteq> 0" "max_timestep s1 \<le> timestep s1"
    using Cons.prems unfolding s1_eq by (simp_all add: ex Let_def record_startup_def)
  have t: "terminal_of (Inr out) = Some True"
    using Cons.prems unfolding out_eq by (simp add: ex Let_def record_startup_def)
  from Cons.prems have "set bs \<subseteq> {0, 1}" by simp
  from Cons.IH[OF s1 this] show ?case
    using e t by (auto split: prod.splits)
qed

subsection \<open>Reset\<close>

lemma reset_v1_state:
  "reset_v1 sample s = (obs, s') \<Longrightarrow>
   timestep s' = 0 \<and> current_temp s' = PyFloat 0 \<and> obs = NdArray sample"
  by (auto simp add: reset_v1_def Let_def)

lemma reset_v2_state:
  "reset_v2 sample s = (obs, s') \<Longrightarrow>
   timestep s' = 0 \<and> last_heater_state s' = 0 \<and> off_to_on s' = [] \<and>
   current_temp s' = NdArray sample \<and> obs = current_temp s'"
  by (auto simp add: reset_v2_def Let_def)

lemma reset_v3_state:
  "reset_v3 sample s = (obs, s') \<Longrightarrow>
   timestep s' = 0 \<and> last_heater_state s' = 0 \<and> off_to_on s' = [] \<and>
   toggle_ons_left s' = max_toggle_ons s \<and>
   current_temp s' = NdArray sample \<and> obs = (sample, real_of_int (max_toggle_ons s))"
  by (auto simp add: reset_v3_def observation_v3_def Let_def)

subsection \<open>The temperature\<close>

lemma temp_val_temp_map: "temp_val (temp_map f t) = f (temp_val t)"
  by (cases t) simp_all

lemma response_respond:
  "response s a = map_sum id (\<lambda>T'. temp_map (\<lambda>_. T') (current_temp s))
                    (respond a (temp_val (current_temp s)) (tau s))"
  by (cases "current_temp s") (simp_all add: response_def respond_def)

lemma decay_unit_interval:
  assumes "a = 0 \<or> a = 1" "0 < tau0" "0 \<le> T" "T \<le> 1"
  shows "0 \<le> real_of_int a + (T - real_of_int a) * exp (- 1 / tau0) \<and>
         real_of_int a + (T - real_of_int a) * exp (- 1 / tau0) \<le> 1"
proof -
  define k where "k = exp (- 1 / tau0)"
  have k: "0 < k" "k < 1"
    using assms(2) by (simp_all add: k_def)
  have "0 \<le> real_of_int a + (T - real_of_int a) * k \<and> real_of_int a + (T - real_of_int a) * k \<le> 1"
    using assms(1)
  proof
    assume "a = 0"
    moreover have "0 \<le> T * k"
      using assms(3) k by simp
    moreover have "T * k \<le> 1 * 1"
      using assms(3,4) k by (intro mult_mono) simp_all
    ultimately show ?thesis
      by simp
  next
    assume "a = 1"
    moreover have "0 \<le> (1 - T) * k"
      using assms(4) k by simp
    moreover have "(1 - T) * k \<le> 1 * 1"
      using assms(3,4) k by (intro mult_mono) simp_all
    moreover have "(T - 1) * k = - ((1 - T) * k)"
      by (simp add: algebra_simps)
    ultimately show ?thesis
      by simp
  qed
  then show ?thesis
    by (simp add: k_def)
qed

lemma execute_v1_temp:
  assumes "tau s \<noteq> 0" "a = 0 \<or> a = 1"
  shows "temp_val (current_temp (snd (execute_v1 s a))) =
           real_of_int a + (temp_val (current_temp s) - real_of_int a) * exp (- 1 / tau s)"
  using assms by (simp add: execute_v1_returns Let_def temp_val_temp_map)

lemma execute_v2_temp:
  assumes "tau s \<noteq> 0" "a = 0 \<or> a = 1"
  shows "temp_val (current_temp (snd (execute_v2 s a))) =
           real_of_int a + (temp_val (current_temp s) - real_of_int a) * exp (- 1 / tau s)"
  using assms by (simp add: execute_v2_returns Let_def record_startup_def temp_val_temp_map)

lemma execute_v3_temp:
  assumes "tau s \<noteq> 0" "a = 0 \<or> a = 1"
  shows "temp_val (current_temp (snd (execute_v3 s a))) =
           real_of_int a + (temp_val (current_temp s) - real_of_int a) * exp (- 1 / tau s)"
  using assms by (simp add: execute_v3_snd Let_def record_startup_def temp_val_temp_map)

text \<open>The interval is kept along a run, whether or not a call of the run raises.\<close>

lemma run_v1_unit_interval:
  "0 < tau s \<Longrightarrow> set as \<subseteq> {0, 1} \<Longrightarrow>
   0 \<le> temp_val (current_temp s) \<Longrightarrow> temp_val (current_temp s) \<le> 1 \<Longrightarrow>
   0 \<le> temp_val (current_temp (snd (run_v1 s as))) \<and>
   temp_val (current_temp (snd (run_v1 s as))) \<le> 1"
proof (induction as arbitrary: s)
  case Nil
  then show ?case by simp
next
  case (Cons a as)
  from Cons.prems have a: "a = 0 \<or> a = 1" and as: "set as \<subseteq> {0, 1}"
    by auto
  from Cons.prems have nz: "tau s \<noteq> 0"
    by simp
  obtain r s1 where e: "execute_v1 s a = (r, s1)"
    by (cases "execute_v1 s a")
  then have s1: "s1 = snd (execute_v1 s a)"
    by simp
  have t: "0 < tau s1"
    using Cons.prems(1) by (simp add: s1 execute_tau)
  have u: "0 \<le> temp_val (current_temp s1) \<and> temp_val (current_temp s1) \<le> 1"
    unfolding s1 execute_v1_temp[OF nz a]
    using decay_unit_interval[OF a Cons.prems(1,3,4)] .
  from Cons.IH[OF t as] u e show ?case
    by (cases r) (auto split: prod.splits)
qed

lemma run_v2_unit_interval:
  "0 < tau s \<Longrightarrow> set as \<subseteq> {0, 1} \<Longrightarrow>
   0 \<le> temp_val (current_temp s) \<Longrightarrow> temp_val (current_temp s) \<le> 1 \<Longrightarrow>
   0 \<le> temp_val (current_temp (snd (run_v2 s as))) \<and>
   temp_val (current_temp (snd (run_v2 s as))) \<le> 1"
proof (induction as arbitrary: s)
  case Nil
  then show ?case by simp
next
  case (Cons a as)
  from Cons.prems have a: "a = 0 \<or> a = 1" and as: "set as \<subseteq> {0, 1}"
    by auto
  from Cons.prems have nz: "tau s \<noteq> 0"
    by simp
  obtain r s1 where e: "execute_v2 s a = (r, s1)"
    by (cases "execute_v2 s a")
  then have s1: "s1 = snd (execute_v2 s a)"
    by simp
  have t: "0 < tau s1"
    using Cons.prems(1) by (simp add: s1 execute_tau)
  have u: "0 \<le> temp_val (current_temp s1) \<and> temp_val (current_temp s1) \<le> 1"
    unfolding s1 execute_v2_temp[OF nz a]
    using decay_unit_interval[OF a Cons.prems(1,3,4)] .
  from Cons.IH[OF t as] u e show ?case
    by (cases r) (auto split: prod.splits)
qed

lemma run_v3_unit_interval:
  "0 < tau s \<Longrightarrow> set as \<subseteq> {0, 1} \<Longrightarrow>
   0 \<le> temp_val (current_temp s) \<Longrightarrow> temp_val (current_temp s) \<le> 1 \<Longrightarrow>
   0 \<le> temp_val (current_temp (snd (run_v3 s as))) \<and>
   temp_val (current_temp (snd (run_v3 s as))) \<le> 1"
proof (induction as arbitrary: s)
  case Nil
  then show ?case by simp
next
  case (Cons a as)
  from Cons.prems have a: "a = 0 \<or> a = 1" and as: "set as \<subseteq> {0, 1}"
    by auto
  from Cons.prems have nz: "tau s \<noteq> 0"
    by simp
  obtain r s1 where e: "execute_v3 s a = (r, s1)"
    by (cases "execute_v3 s a")
  then have s1: "s1 = snd (execute_v3 s a)"
    by simp
  have t: "0 < tau s1"
    using Cons.prems(1) by (simp add: s1 execute_tau)
  have u: "0 \<le> temp_val (current_temp s1) \<and> temp_val (current_temp s1) \<le> 1"
    unfolding s1 execute_v3_temp[OF nz a]
    using decay_unit_interval[OF a Cons.prems(1,3,4)] .
  from Cons.IH[OF t as] u e show ?case
    by (cases r) (auto split: prod.splits)
qed

subsection \<open>The window and the reward\<close>

lemma count_list_filter:
  "count_list (filter P xs) x = (if P x then count_list xs x else 0)"
  by (induction xs) auto

lemma window_edge_v3_run:
  "toggle_ons_left (snd (run_v3 (snd (reset_v3 (1/2) init_v3)) [1, 0, 0, 0, 0, 0, 0, 0, 0, 0, 0])) = 2 \<and>
   timestep (snd (run_v3 (snd (reset_v3 (1/2) init_v3)) [1, 0, 0, 0, 0, 0, 0, 0, 0, 0, 0])) = 11 \<and>
   toggle_ons_left (snd (run_v3 (snd (reset_v3 (1/2) init_v3)) [1, 0, 0, 0, 0, 0, 0, 0, 0, 0, 0, 0])) = 3 \<and>
   timestep (snd (run_v3 (snd (reset_v3 (1/2) init_v3)) [1, 0, 0, 0, 0, 0, 0, 0, 0, 0, 0, 0])) = 12"
  by (simp add: reset_v3_def init_v3_def execute_v3_array Let_def record_startup_def
        lstWindowEvents_def observation_v3_def)

lemma reward_compute_v3_float:
  "reward_compute_v3 (s\<lparr>current_temp := PyFloat T\<rparr>) =
     (if \<bar>T - 0.5\<bar> < 0.1 then Inr 1 else Inl TypeError)"
  by (simp add: reward_compute_v3_def Let_def)

lemma reward_boundary:
  "reward_compute (s1\<lparr>current_temp := PyFloat 0.6\<rparr>) = 0 \<and>
   reward_compute (s1\<lparr>current_temp := PyFloat 0.4\<rparr>) = 0 \<and>
   reward_compute_v3 (s3\<lparr>current_temp := NdArray 0.6\<rparr>) = Inr 0 \<and>
   reward_compute_v3 (s3\<lparr>current_temp := NdArray 0.4\<rparr>) = Inr 0"
  by (simp add: reward_compute_def reward_compute_v3_def Let_def)

subsection \<open>The outputs recorded in the notebooks\<close>

text \<open>
  The cells of the notebooks keep what they printed. The seven calls of V1 end the
  episode at the sixth; the nine calls of V3 after a \<^verbatim>\<open>reset\<close> show the budgets
  2, 2, 1, 1, 0, 0, -1, -1, -1, the reward \<^verbatim>\<open>-10.0\<close> on the last three and the startups
  \<^verbatim>\<open>[1, 3, 5, 7]\<close>; the episode of V2 that starts at temperature 1 ends at its fourth
  startup with \<^verbatim>\<open>off_to_on = [6, 9, 12, 15]\<close>.
\<close>

lemma notebook_v1_terminals:
  "map terminal_of (fst (run_v1 init_v1 [1, 1, 1, 1, 1, 1, 1])) =
     [Some False, Some False, Some False, Some False, Some False, Some True, Some True]"
  by (simp add: init_v1_def execute_v1_returns Let_def)

lemma notebook_v3_budgets:
  "map (map_sum id (\<lambda>(obs, terminal, reward). (snd obs, terminal)))
       (fst (run_v3 (snd (reset_v3 sample init_v3)) [1, 0, 1, 0, 1, 0, 1, 1, 1])) =
     [Inr (2, False), Inr (2, False), Inr (1, False), Inr (1, False), Inr (0, False),
      Inr (0, False), Inr (- 1, False), Inr (- 1, False), Inr (- 1, False)] \<and>
   map reward_of (drop 6 (fst (run_v3 (snd (reset_v3 sample init_v3)) [1, 0, 1, 0, 1, 0, 1, 1, 1]))) =
     [Some (- 10), Some (- 10), Some (- 10)] \<and>
   off_to_on (snd (run_v3 (snd (reset_v3 sample init_v3)) [1, 0, 1, 0, 1, 0, 1, 1, 1])) = [1, 3, 5, 7] \<and>
   timestep (snd (run_v3 (snd (reset_v3 sample init_v3)) [1, 0, 1, 0, 1, 0, 1, 1, 1])) = 9"
  by (simp add: reset_v3_def init_v3_def execute_v3_array Let_def record_startup_def
        lstWindowEvents_def observation_v3_def)

lemma notebook_v2_episode:
  "map terminal_of
     (fst (run_v2 ((snd (reset_v2 sample init_v2))\<lparr>current_temp := NdArray 1\<rparr>)
        [0, 0, 0, 0, 0, 1, 0, 0, 1, 0, 0, 1, 0, 0, 1])) =
     replicate 14 (Some False) @ [Some True] \<and>
   off_to_on
     (snd (run_v2 ((snd (reset_v2 sample init_v2))\<lparr>current_temp := NdArray 1\<rparr>)
        [0, 0, 0, 0, 0, 1, 0, 0, 1, 0, 0, 1, 0, 0, 1])) = [6, 9, 12, 15]"
  by (simp add: reset_v2_def init_v2_def execute_v2_returns Let_def record_startup_def
        lstWindowEvents_def eval_nat_numeral)

section \<open>The timestep limit in V3\<close>

text \<open>
  C1. In V3 a call of \<^verbatim>\<open>execute\<close> whose incremented timestep exceeds
  \<^verbatim>\<open>max_timestep\<close> is claimed to return \<^verbatim>\<open>terminal = True\<close> also when
  \<^verbatim>\<open>toggle_ons_left\<close> is negative on that step. The code returns from the branch
  \<^verbatim>\<open>if self.toggle_ons_left < 0\<close> with \<^verbatim>\<open>False\<close> before it reaches the test
  under its comment "If we exceed max_timestamps, end episode". After \<^verbatim>\<open>reset\<close>,
  94 calls with action 0 and then the actions 1, 0, 1, 0, 1, 0, 1 put startups at the
  timesteps 95, 97, 99 and 101: all 101 calls return, and the last one returns
  \<^verbatim>\<open>terminal = False\<close> at timestep 101 with \<^verbatim>\<open>max_timestep = 100\<close> and
  \<^verbatim>\<open>toggle_ons_left = -1\<close>.
\<close>

theorem execute_v3_limit_not_terminal:
  "length (fst (run_v3 (snd (reset_v3 (1/2) init_v3)) (replicate 94 0 @ [1,0,1,0,1,0,1]))) = 101 \<and>
  terminal_of (last (fst (run_v3 (snd (reset_v3 (1/2) init_v3)) (replicate 94 0 @ [1,0,1,0,1,0,1])))) = Some False
  \<and> timestep (snd (run_v3 (snd (reset_v3 (1/2) init_v3)) (replicate 94 0 @ [1,0,1,0,1,0,1]))) = 101
  \<and> max_timestep (snd (run_v3 (snd (reset_v3 (1/2) init_v3)) (replicate 94 0 @ [1,0,1,0,1,0,1]))) = 100
  \<and> toggle_ons_left (snd (run_v3 (snd (reset_v3 (1/2) init_v3)) (replicate 94 0 @ [1,0,1,0,1,0,1]))) = - 1"
proof -
  let ?s0 = "snd (reset_v3 (1/2) init_v3)"
  have s0: "tau ?s0 \<noteq> 0" "current_temp ?s0 = NdArray (1/2)" "off_to_on ?s0 = []"
    "last_heater_state ?s0 = 0" "0 \<le> max_toggle_ons ?s0"
    by (simp_all add: reset_v3_def init_v3_def Let_def)
  from idle_v3[OF s0, of 94] obtain outs s' T' where
    r: "run_v3 ?s0 (replicate 94 0) = (outs, s')" "length outs = 94"
      "list_all (\<lambda>r. \<not> isl r) outs"
      "timestep s' = timestep ?s0 + int 94" "current_temp s' = NdArray T'"
      "off_to_on s' = []" "last_heater_state s' = 0" "tau s' = tau ?s0"
      "max_timestep s' = max_timestep ?s0" "max_toggle_ons s' = max_toggle_ons ?s0"
      "window_toggle_ons s' = window_toggle_ons ?s0"
      "exceed_toggle_on_reward s' = exceed_toggle_on_reward ?s0"
    by blast
  have s': "timestep s' = 94" "tau s' = 3" "max_timestep s' = 100" "max_toggle_ons s' = 3"
    "window_toggle_ons s' = 10"
    using r by (simp_all add: reset_v3_def init_v3_def Let_def)
  note app = run_v3_append[OF r(1) r(3), of "[1,0,1,0,1,0,1]"]
  obtain outs2 s2 where t: "run_v3 s' [1,0,1,0,1,0,1] = (outs2, s2)"
    by (cases "run_v3 s' [1,0,1,0,1,0,1]")
  have "length (fst (run_v3 s' [1,0,1,0,1,0,1])) = 7 \<and>
     terminal_of (last (fst (run_v3 s' [1,0,1,0,1,0,1]))) = Some False \<and>
     timestep (snd (run_v3 s' [1,0,1,0,1,0,1])) = 101 \<and>
     max_timestep (snd (run_v3 s' [1,0,1,0,1,0,1])) = 100 \<and>
     toggle_ons_left (snd (run_v3 s' [1,0,1,0,1,0,1])) = - 1"
    using s' r(5,6,7)
    by (simp add: execute_v3_array Let_def record_startup_def lstWindowEvents_def observation_v3_def)
  then have tail: "length outs2 = 7" "terminal_of (last outs2) = Some False" "timestep s2 = 101"
    "max_timestep s2 = 100" "toggle_ons_left s2 = - 1"
    unfolding t by simp_all
  from tail(1) have ne: "outs2 \<noteq> []"
    by auto
  show ?thesis
    unfolding app t using tail r(2) ne by simp
qed

section \<open>Reset\<close>

text \<open>
  C2. \<^verbatim>\<open>reset\<close> is claimed, for every variant, to store the number it draws in
  \<^verbatim>\<open>current_temp\<close> and to return that same value. V2 and V3 do so
  (\<open>reset_v2_state\<close>, \<open>reset_v3_state\<close>). V1 returns the number drawn and stores
  \<^verbatim>\<open>0.0\<close>: with the draw \<open>1/2\<close> on a new V1 environment the observation is
  \<open>1/2\<close> and the stored temperature is \<open>0\<close>.
\<close>

theorem reset_v1_observation_not_state:
  "fst (reset_v1 (1/2) init_v1) = NdArray (1/2) \<and>
   current_temp (snd (reset_v1 (1/2) init_v1)) = PyFloat 0"
  by (simp add: reset_v1_def Let_def)

section \<open>Calls after a terminal one\<close>

text \<open>
  C3, as claimed: once a call of \<^verbatim>\<open>execute\<close> has returned \<^verbatim>\<open>terminal = True\<close>,
  every later call without a \<^verbatim>\<open>reset\<close> returns \<^verbatim>\<open>True\<close> too. No variant
  keeps a terminal flag, and the hard cutoff of V2 stops firing when startups leave the
  window: after \<^verbatim>\<open>reset\<close>, the actions 1, 0, 1, 0, 1, 0, 1 and then fifteen times 1
  give \<^verbatim>\<open>True\<close> from the call 7 (four startups in the window) to the call 21, and
  \<^verbatim>\<open>False\<close> at the call 22, where the startup of timestep 1 is 21 steps old.
\<close>

theorem terminal_not_absorbing_v2:
  "map terminal_of (fst (run_v2 (snd (reset_v2 (1/2) init_v2))
   [1,0,1,0,1,0,1,1,1,1,1,1,1,1,1,1,1,1,1,1,1,1])) =
   [Some False, Some False, Some False, Some False, Some False, Some False,
    Some True, Some True, Some True, Some True, Some True, Some True, Some True, Some True,
    Some True, Some True, Some True, Some True, Some True, Some True, Some True, Some False]"
  by (simp add: reset_v2_def init_v2_def execute_v2_def response_def record_startup_def
        lstWindowEvents_def max_episode_timesteps_def Let_def)

text \<open>
  C3, amended: termination by the timestep limit is absorbing in V1 and V2. After a call
  of V1 that returned \<^verbatim>\<open>terminal = True\<close>, and after a call of V2 that returned
  \<^verbatim>\<open>terminal = True\<close> with the timestep beyond \<^verbatim>\<open>max_timestep\<close>, every call of
  a sequence of calls with actions in \<open>{0, 1}\<close> returns, with \<^verbatim>\<open>terminal = True\<close>.
\<close>

theorem timestep_limit_absorbing:
  "set bs \<subseteq> {0, 1} \<Longrightarrow>
   (terminal_of (fst (execute_v1 s1 a)) = Some True \<longrightarrow>
      map terminal_of (fst (run_v1 (snd (execute_v1 s1 a)) bs)) = replicate (length bs) (Some True)) \<and>
   (terminal_of (fst (execute_v2 s2 a)) = Some True \<and>
    max_timestep (snd (execute_v2 s2 a)) < timestep (snd (execute_v2 s2 a)) \<longrightarrow>
      map terminal_of (fst (run_v2 (snd (execute_v2 s2 a)) bs)) = replicate (length bs) (Some True))"
proof (intro conjI impI)
  assume bs: "set bs \<subseteq> {0, 1}" and t: "terminal_of (fst (execute_v1 s1 a)) = Some True"
  from terminal_v1_returned[OF t] have ok: "tau s1 \<noteq> 0" "a = 0 \<or> a = 1" by simp_all
  note ex = execute_v1_returns[OF ok]
  have "tau (snd (execute_v1 s1 a)) \<noteq> 0" "5 \<le> timestep (snd (execute_v1 s1 a))"
    using t ok(1) by (simp_all add: ex Let_def)
  from run_v1_past_limit[OF this bs]
  show "map terminal_of (fst (run_v1 (snd (execute_v1 s1 a)) bs)) = replicate (length bs) (Some True)" .
next
  assume bs: "set bs \<subseteq> {0, 1}"
    and t: "terminal_of (fst (execute_v2 s2 a)) = Some True \<and>
      max_timestep (snd (execute_v2 s2 a)) < timestep (snd (execute_v2 s2 a))"
  from terminal_v2_returned[of s2 a True] t have ok: "tau s2 \<noteq> 0" "a = 0 \<or> a = 1" by simp_all
  note ex = execute_v2_returns[OF ok]
  have "tau (snd (execute_v2 s2 a)) \<noteq> 0"
    using ok(1) by (simp add: ex Let_def record_startup_def)
  moreover have "max_timestep (snd (execute_v2 s2 a)) \<le> timestep (snd (execute_v2 s2 a))"
    using t by simp
  ultimately
  show "map terminal_of (fst (run_v2 (snd (execute_v2 s2 a)) bs)) = replicate (length bs) (Some True)"
    using run_v2_past_limit bs by blast
qed

theorem timestep_limit_absorbing_witness:
  "map terminal_of (fst (run_v1 (snd (execute_v1 (init_v1\<lparr>timestep := 5\<rparr>) 1)) [0, 1])) =
     [Some True, Some True] \<and>
   map terminal_of (fst (run_v2 (snd (execute_v2 (init_v2\<lparr>timestep := 200\<rparr>) 1)) [0, 1])) =
     [Some True, Some True]"
  using timestep_limit_absorbing[of "[0, 1]" "init_v1\<lparr>timestep := 5\<rparr>" 1 "init_v2\<lparr>timestep := 200\<rparr>"]
  by (simp add: execute_v1_returns execute_v2_returns init_v1_def init_v2_def Let_def
        record_startup_def lstWindowEvents_def)

section \<open>The hard cutoff of V2\<close>

text \<open>
  C4. In V2, a call of \<^verbatim>\<open>execute\<close> with a valid action after which more than
  \<^verbatim>\<open>max_toggle_ons\<close> of the recorded startups \<open>e\<close> satisfy
  \<open>timestep - e \<le> window_toggle_ons\<close> returns \<^verbatim>\<open>terminal = True\<close> and the reward
  \<^verbatim>\<open>exceed_toggle_on_reward\<close>, whatever the dead-band reward of the step would be.
  (The time constant is not zero, so that the call returns at all.)
\<close>

theorem execute_v2_hard_cutoff:
  assumes "actions \<in> {0, 1}" and "tau s \<noteq> 0" and "s' = snd (execute_v2 s actions)"
    and "max_toggle_ons s' <
           int (length (filter (\<lambda>e. timestep s' - e \<le> window_toggle_ons s') (off_to_on s')))"
  shows "fst (execute_v2 s actions) = Inr (current_temp s', True, exceed_toggle_on_reward s')"
  using assms
  by (auto simp add: execute_v2_def response_def Let_def lstWindowEvents_def split: if_splits)

theorem execute_v2_hard_cutoff_witness:
  "fst (execute_v2 (snd (run_v2 (snd (reset_v2 (1/2) init_v2)) [1, 0, 1, 0, 1, 0])) 1) =
     Inr (current_temp (snd (execute_v2 (snd (run_v2 (snd (reset_v2 (1/2) init_v2)) [1, 0, 1, 0, 1, 0])) 1)),
          True, - 50)"
  using execute_v2_hard_cutoff[of 1 "snd (run_v2 (snd (reset_v2 (1/2) init_v2)) [1, 0, 1, 0, 1, 0])"
      "snd (execute_v2 (snd (run_v2 (snd (reset_v2 (1/2) init_v2)) [1, 0, 1, 0, 1, 0])) 1)"]
  by (simp add: reset_v2_def init_v2_def execute_v2_returns Let_def record_startup_def
        lstWindowEvents_def)

section \<open>The soft penalty of V3\<close>

text \<open>
  C5. In V3, a call of \<^verbatim>\<open>execute\<close> with a valid action after which
  \<open>remaining = max_toggle_ons - (number of startups in the window)\<close> is negative returns
  \<^verbatim>\<open>terminal = False\<close>, the reward \<^verbatim>\<open>exceed_toggle_on_reward\<close> and the observation
  \<open>(temperature, remaining)\<close>; \<open>remaining\<close> is what the call leaves in
  \<^verbatim>\<open>toggle_ons_left\<close>.
\<close>

theorem execute_v3_soft_penalty:
  assumes "actions \<in> {0, 1}" and "tau s \<noteq> 0" and "s' = snd (execute_v3 s actions)"
    and "remaining = max_toggle_ons s' -
           int (length (filter (\<lambda>e. timestep s' - e \<le> window_toggle_ons s') (off_to_on s')))"
    and "remaining < 0"
  shows "fst (execute_v3 s actions) =
           Inr ((temp_val (current_temp s'), real_of_int remaining), False,
                exceed_toggle_on_reward s') \<and>
         toggle_ons_left s' = remaining"
proof -
  from assms(1) have a: "actions = 0 \<or> actions = 1"
    by simp
  have left: "toggle_ons_left s' = remaining"
    unfolding assms(4) assms(3) execute_v3_snd[OF assms(2) a]
    by (simp add: Let_def lstWindowEvents_def record_startup_def)
  then have "toggle_ons_left (snd (execute_v3 s actions)) < 0"
    using assms(3,5) by simp
  from execute_v3_negative_budget[OF assms(2) a this] left show ?thesis
    unfolding assms(3)[symmetric] by (simp add: observation_v3_def)
qed

theorem execute_v3_soft_penalty_witness:
  "fst (execute_v3 (snd (run_v3 (snd (reset_v3 (1/2) init_v3)) [1, 0, 1, 0, 1, 0])) 1) =
     Inr ((temp_val (current_temp
             (snd (execute_v3 (snd (run_v3 (snd (reset_v3 (1/2) init_v3)) [1, 0, 1, 0, 1, 0])) 1))),
           - 1), False, - 10) \<and>
   toggle_ons_left (snd (execute_v3 (snd (run_v3 (snd (reset_v3 (1/2) init_v3)) [1, 0, 1, 0, 1, 0])) 1))
     = - 1"
proof -
  define s where "s = snd (run_v3 (snd (reset_v3 (1/2) init_v3)) [1, 0, 1, 0, 1, 0])"
  define s' where "s' = snd (execute_v3 s 1)"
  have s: "tau s = 3" "timestep s = 6" "off_to_on s = [1, 3, 5]" "last_heater_state s = 0"
    "max_toggle_ons s = 3" "window_toggle_ons s = 10" "exceed_toggle_on_reward s = - 10"
    unfolding s_def
    by (simp_all add: reset_v3_def init_v3_def execute_v3_array Let_def record_startup_def
        lstWindowEvents_def)
  have tau: "tau s \<noteq> 0"
    using s(1) by simp
  have post: "timestep s' = 7" "off_to_on s' = [1, 3, 5, 7]" "window_toggle_ons s' = 10"
    "max_toggle_ons s' = 3" "exceed_toggle_on_reward s' = - 10"
    unfolding s'_def using s by (simp_all add: execute_v3_snd Let_def record_startup_def)
  have rem: "- 1 = max_toggle_ons s' -
      int (length (filter (\<lambda>e. timestep s' - e \<le> window_toggle_ons s') (off_to_on s')))"
    unfolding post by simp
  from execute_v3_soft_penalty[of 1 s s' "- 1", OF _ tau s'_def rem]
  show ?thesis
    unfolding post unfolding s'_def s_def by simp
qed

section \<open>The left edge of the window\<close>

text \<open>
  C6. The window includes its left edge: at timestep \<open>t + window_toggle_ons\<close> the list
  of the events in the window, which V2 and V3 count, holds every startup recorded at
  timestep \<open>t\<close>; at timestep \<open>t + window_toggle_ons + 1\<close> it holds none of them.
  \<open>window_edge_v3_run\<close> shows it on a run of V3: a startup at timestep 1 still takes one
  of the three startups at timestep 11 and none at timestep 12.
\<close>

theorem window_left_edge_inclusive:
  "(timestep s = t + window_toggle_ons s \<longrightarrow>
      count_list (lstWindowEvents s) t = count_list (off_to_on s) t) \<and>
   (timestep s = t + window_toggle_ons s + 1 \<longrightarrow>
      count_list (lstWindowEvents s) t = 0)"
  by (simp add: lstWindowEvents_def count_list_filter)

theorem window_left_edge_inclusive_witness:
  "count_list (lstWindowEvents (init_v3\<lparr>timestep := 11, off_to_on := [1]\<rparr>)) 1 = 1 \<and>
   count_list (lstWindowEvents (init_v3\<lparr>timestep := 12, off_to_on := [1]\<rparr>)) 1 = 0"
  using window_left_edge_inclusive[of "init_v3\<lparr>timestep := 11, off_to_on := [1]\<rparr>" 1]
    window_left_edge_inclusive[of "init_v3\<lparr>timestep := 12, off_to_on := [1]\<rparr>" 1]
  by (simp add: init_v3_def)

section \<open>The dead band of the reward\<close>

text \<open>
  In V1 and V2, for every temperature, and in V3 for every temperature held as the
  one-element array that \<^verbatim>\<open>reset\<close> stores, the reward is the in-band value (0 in V1
  and V2, 1 in V3) when \<open>\<bar>T - 0.5\<bar> < 0.1\<close> and \<open>0.1 - \<bar>T - 0.5\<bar>\<close> otherwise; at
  \<open>\<bar>T - 0.5\<bar> = 0.1\<close> the second case applies (\<open>reward_boundary\<close>).
\<close>

theorem reward_dead_band:
  "reward_compute (s1\<lparr>current_temp := t\<rparr>) =
     (if \<bar>temp_val t - 0.5\<bar> < 0.1 then 0 else 0.1 - \<bar>temp_val t - 0.5\<bar>) \<and>
   reward_compute_v3 (s3\<lparr>current_temp := NdArray T\<rparr>) =
     Inr (if \<bar>T - 0.5\<bar> < 0.1 then 1 else 0.1 - \<bar>T - 0.5\<bar>)"
  by (simp add: reward_compute_def reward_compute_v3_def Let_def)

text \<open>
  C7. For every temperature \<open>T\<close> the reward function is claimed to return the in-band
  value (0 in V1 and V2, 1 in V3) when \<open>\<bar>T - 0.5\<bar> < 0.1\<close> and \<open>0.1 - \<bar>T - 0.5\<bar>\<close>
  otherwise. V1 and V2 do so, and V3 does so after a \<^verbatim>\<open>reset\<close> (\<open>reward_dead_band\<close>).
  The branch of V3 outside the band returns \<^verbatim>\<open>-delta[0] + 0.1\<close>, and the index raises
  on the float \<^verbatim>\<open>0.0\<close> that \<^verbatim>\<open>__init__\<close> stores: on a new V3 environment
  \<^verbatim>\<open>reward_compute\<close> raises a \<^verbatim>\<open>TypeError\<close> where the claim, the docstring of the
  method and the same method of V1 and V2 give \<open>0.1 - 0.5\<close>.
\<close>

theorem reward_compute_v3_float_raises:
  "reward_compute_v3 init_v3 = Inl TypeError"
  by (simp add: reward_compute_v3_def init_v3_def Let_def)

text \<open>So a first call of \<^verbatim>\<open>execute\<close> on a new V3 environment raises, with the timestep
  already incremented.\<close>

lemma execute_v3_before_reset_raises:
  "fst (execute_v3 init_v3 0) = Inl TypeError \<and> timestep (snd (execute_v3 init_v3 0)) = 1"
  by (simp add: execute_v3_unfold init_v3_def Let_def record_startup_def lstWindowEvents_def
      reward_compute_v3_def)

section \<open>Rejected actions\<close>

text \<open>
  C9. For every action outside \<open>{0, 1}\<close>, \<^verbatim>\<open>execute\<close> raises the assertion error of
  its first statement and leaves the environment exactly as it was, in each of the
  three variants.
\<close>

theorem execute_invalid_action_atomic:
  "actions \<notin> {0, 1} \<Longrightarrow>
     execute_v1 s1 actions = (Inl AssertionError, s1) \<and>
     execute_v2 s2 actions = (Inl AssertionError, s2) \<and>
     execute_v3 s3 actions = (Inl AssertionError, s3)"
  by (simp add: execute_v1_def execute_v2_def execute_v3_def)

theorem execute_invalid_action_atomic_witness:
  "(2::int) \<notin> {0, 1} \<and>
     execute_v1 init_v1 2 = (Inl AssertionError, init_v1) \<and>
     execute_v2 init_v2 2 = (Inl AssertionError, init_v2) \<and>
     execute_v3 init_v3 2 = (Inl AssertionError, init_v3)"
  using execute_invalid_action_atomic [of 2 init_v1 init_v2 init_v3] by simp

section \<open>The unit interval\<close>

text \<open>
  C10. For a positive time constant, a temperature in \<open>[0, 1]\<close> and an action in
  \<open>{0, 1}\<close>, the response function returns a temperature in \<open>[0, 1]\<close>, and so the
  temperature that a call of \<^verbatim>\<open>execute\<close> leaves in the environment is in \<open>[0, 1]\<close>
  in V1, V2 and V3 (and along every run: \<open>run_v1_unit_interval\<close>,
  \<open>run_v2_unit_interval\<close>, \<open>run_v3_unit_interval\<close>).
\<close>

theorem unit_interval_invariant:
  assumes "a \<in> {0, 1}" and "0 < tau0" and "0 \<le> T" and "T \<le> 1"
  shows "(\<exists>T'. respond a T tau0 = Inr T' \<and> 0 \<le> T' \<and> T' \<le> 1) \<and>
         (tau s1 = tau0 \<and> temp_val (current_temp s1) = T \<longrightarrow>
            0 \<le> temp_val (current_temp (snd (execute_v1 s1 a))) \<and>
            temp_val (current_temp (snd (execute_v1 s1 a))) \<le> 1) \<and>
         (tau s2 = tau0 \<and> temp_val (current_temp s2) = T \<longrightarrow>
            0 \<le> temp_val (current_temp (snd (execute_v2 s2 a))) \<and>
            temp_val (current_temp (snd (execute_v2 s2 a))) \<le> 1) \<and>
         (tau s3 = tau0 \<and> temp_val (current_temp s3) = T \<longrightarrow>
            0 \<le> temp_val (current_temp (snd (execute_v3 s3 a))) \<and>
            temp_val (current_temp (snd (execute_v3 s3 a))) \<le> 1)"
proof -
  from assms(1) have a: "a = 0 \<or> a = 1"
    by simp
  note unit = decay_unit_interval[OF a assms(2,3,4)]
  have nz: "tau0 \<noteq> 0"
    using assms(2) by simp
  have "\<exists>T'. respond a T tau0 = Inr T' \<and> 0 \<le> T' \<and> T' \<le> 1"
    using unit nz by (simp add: respond_def)
  moreover have "0 \<le> temp_val (current_temp (snd (execute_v1 s1 a))) \<and>
      temp_val (current_temp (snd (execute_v1 s1 a))) \<le> 1"
    if "tau s1 = tau0 \<and> temp_val (current_temp s1) = T"
    using that unit nz a by (simp add: execute_v1_temp)
  moreover have "0 \<le> temp_val (current_temp (snd (execute_v2 s2 a))) \<and>
      temp_val (current_temp (snd (execute_v2 s2 a))) \<le> 1"
    if "tau s2 = tau0 \<and> temp_val (current_temp s2) = T"
    using that unit nz a by (simp add: execute_v2_temp)
  moreover have "0 \<le> temp_val (current_temp (snd (execute_v3 s3 a))) \<and>
      temp_val (current_temp (snd (execute_v3 s3 a))) \<le> 1"
    if "tau s3 = tau0 \<and> temp_val (current_temp s3) = T"
    using that unit nz a by (simp add: execute_v3_temp)
  ultimately show ?thesis
    by blast
qed

theorem unit_interval_invariant_witness:
  "(\<exists>T'. respond 1 0 3 = Inr T' \<and> 0 \<le> T' \<and> T' \<le> 1) \<and>
   0 \<le> temp_val (current_temp (snd (execute_v1 init_v1 1))) \<and>
   temp_val (current_temp (snd (execute_v1 init_v1 1))) \<le> 1 \<and>
   0 \<le> temp_val (current_temp (snd (execute_v2 init_v2 1))) \<and>
   temp_val (current_temp (snd (execute_v2 init_v2 1))) \<le> 1 \<and>
   0 \<le> temp_val (current_temp (snd (execute_v3 init_v3 1))) \<and>
   temp_val (current_temp (snd (execute_v3 init_v3 1))) \<le> 1"
proof -
  have "tau init_v1 = 3 \<and> temp_val (current_temp init_v1) = 0"
    "tau init_v2 = 3 \<and> temp_val (current_temp init_v2) = 0"
    "tau init_v3 = 3 \<and> temp_val (current_temp init_v3) = 0"
    by (simp_all add: init_v1_def init_v2_def init_v3_def)
  with unit_interval_invariant[of 1 3 0 init_v1 init_v2 init_v3] show ?thesis
    by simp
qed

end
